theory Spec2Isabelle
  imports Main "HOL-Library.Word"
begin

section \<open>Data model\<close>

text \<open>
  The program (\<^verbatim>\<open>main.go\<close>) checks the remaining lifetime of a Vault token and, when
  it is too short, runs \<^verbatim>\<open>vault login -method=oidc\<close> under two timers.

  \<^verbatim>\<open>time.Duration\<close> is an \<^verbatim>\<open>int64\<close> count of nanoseconds: a 64-bit word read
  with \<open>sint\<close>. An instant (\<^verbatim>\<open>time.Time\<close>) is an integer count of nanoseconds since
  the Unix epoch; its range in Go is far wider than that of a Duration, so it is unbounded
  here.
\<close>

type_synonym duration = "64 word"
type_synonym instant = int

datatype signal = SIGTERM | SIGKILL

text \<open>\<^verbatim>\<open>os.ProcessState\<close>: how a child process ended.\<close>

datatype proc_status = Exited nat | Signaled signal

text \<open>
  Go errors. \<open>NotExist\<close> are the errors that \<^verbatim>\<open>os.IsNotExist\<close> recognises, \<open>Other\<close>
  any other error of a library call (by message), \<open>ExitError\<close> is \<^verbatim>\<open>*exec.ExitError\<close>,
  and \<open>Errorf p e\<close> is \<^verbatim>\<open>fmt.Errorf(p + "%v", e)\<close>.
\<close>

datatype error =
    NotExist string
  | Other string
  | ExitError proc_status
  | Errorf string error

text \<open>A value of type \<^verbatim>\<open>interface{}\<close> holding decoded JSON.\<close>

datatype iface =
    VNil
  | VString string
  | VBool bool
  | VNumber string
  | VArray "iface list"
  | VObject "(string \<times> iface) list"

text \<open>\<^verbatim>\<open>api.Secret\<close>: only the field \<^verbatim>\<open>Data map[string]interface{}\<close> is read.\<close>

record secret =
  Data :: "string \<rightharpoonup> iface"

text \<open>\<^verbatim>\<open>api.Client\<close>: the address, the active token, and the request headers.\<close>

record client =
  address :: string
  token :: string
  headers :: "(string \<times> string) list"

definition SetToken :: "client \<Rightarrow> string \<Rightarrow> client" where
  "SetToken c v = c\<lparr>token := v\<rparr>"

text \<open>
  What the freshness evaluation reads from outside the program. \<open>LookupSelf\<close> has Go's
  result type \<^verbatim>\<open>(*Secret, error)\<close>: a pointer that may be nil, and an error that may be
  nil. \<open>time_Parse\<close> is \<^verbatim>\<open>time.Parse(time.RFC3339Nano, _)\<close>.
\<close>

record world =
  os_Stat :: "string \<Rightarrow> error option"
  os_ReadFile :: "string \<Rightarrow> error + string"
  LookupSelf :: "client \<Rightarrow> secret option \<times> error option"
  time_Parse :: "string \<Rightarrow> error + instant"
  time_Now :: instant

fun os_IsNotExist :: "error option \<Rightarrow> bool" where
  "os_IsNotExist (Some (NotExist m)) = True"
| "os_IsNotExist _ = False"

text \<open>The lines written by \<^verbatim>\<open>log.Printf\<close> and \<^verbatim>\<open>log.Fatalf\<close>, with their arguments.\<close>

datatype log_msg =
    LogParsingDuration error
  | LogCreatingClient error
  | LogNotExpiringSoon duration
  | LogDoingLogin error
  | LogTTLNow duration
  | LogAccessing error
  | LogReading error
  | LogLookingUp error
  | LogExpireNotFound
  | LogExpireNotString
  | LogParsingExpire error
  | LogSending signal
  | LogErrorSending signal error
  | LogLoggedIn

text \<open>The observable actions of the freshness evaluation, in order.\<close>

datatype effect =
    EStat string
  | EReadFile string
  | ESetToken string
  | ELookupSelf
  | ELog log_msg

text \<open>A Go call either returns or panics.\<close>

datatype 'a outcome = Return 'a | Panic string

section \<open>Freshness evaluation: \<^verbatim>\<open>ttl\<close>\<close>

definition maxDuration :: int where
  "maxDuration = 2 ^ 63 - 1"

definition minDuration :: int where
  "minDuration = - (2 ^ 63)"

text \<open>
  \<^verbatim>\<open>Time.Sub\<close>: the difference of two instants, or the largest (smallest) Duration when
  the difference does not fit in one.
\<close>

definition time_Sub :: "instant \<Rightarrow> instant \<Rightarrow> duration" where
  "time_Sub t u =
     (let d = t - u in
      if maxDuration < d then word_of_int maxDuration
      else if d < minDuration then word_of_int minDuration
      else word_of_int d)"

text \<open>\<^verbatim>\<open>time.Until(t)\<close> is \<^verbatim>\<open>t.Sub(time.Now())\<close>.\<close>

definition time_Until :: "world \<Rightarrow> instant \<Rightarrow> duration" where
  "time_Until w t = time_Sub t (time_Now w)"

text \<open>
  \<^verbatim>\<open>ttl(client, tokenPath)\<close>. The result is the returned Duration (or the panic), the
  client as the call leaves it, and the actions taken. The branches follow the source
  top to bottom. \<^verbatim>\<open>secret.Data\<close> dereferences the pointer that \<open>LookupSelf\<close> returned;
  the source tests only \<^verbatim>\<open>err\<close> before it.
\<close>

definition ttl :: "world \<Rightarrow> client \<Rightarrow> string \<Rightarrow> duration outcome \<times> client \<times> effect list" where
  "ttl w c tokenPath =
     (let err = os_Stat w tokenPath in
      if os_IsNotExist err then (Return 0, c, [EStat tokenPath])
      else case err of
        Some e \<Rightarrow> (Return 0, c, [EStat tokenPath, ELog (LogAccessing e)])
      | None \<Rightarrow>
         (case os_ReadFile w tokenPath of
            Inl e \<Rightarrow>
              (Return 0, c, [EStat tokenPath, EReadFile tokenPath, ELog (LogReading e)])
          | Inr tokenData \<Rightarrow>
              (let c' = SetToken c tokenData;
                   tr = [EStat tokenPath, EReadFile tokenPath, ESetToken tokenData, ELookupSelf]
               in case LookupSelf w c' of
                    (_, Some e) \<Rightarrow> (Return 0, c', tr @ [ELog (LogLookingUp e)])
                  | (None, None) \<Rightarrow> (Panic ''nil pointer dereference'', c', tr)
                  | (Some sec, None) \<Rightarrow>
                     (case Data sec ''expire_time'' of
                        None \<Rightarrow> (Return 0, c', tr @ [ELog LogExpireNotFound])
                      | Some (VString expireTimeStr) \<Rightarrow>
                         (case time_Parse w expireTimeStr of
                            Inl e \<Rightarrow> (Return 0, c', tr @ [ELog (LogParsingExpire e)])
                          | Inr expireTime \<Rightarrow> (Return (time_Until w expireTime), c', tr))
                      | Some _ \<Rightarrow> (Return 0, c', tr @ [ELog LogExpireNotString])))))"

section \<open>Supervised login: \<^verbatim>\<open>oidcLogin\<close>\<close>

text \<open>
  \<^verbatim>\<open>oidcLogin\<close> runs four activities at once: its own body, the goroutine that waits for
  the child, and the callbacks of the two timers; the child process runs beside them. The
  model is a state and a step function: an event names which activity moves next, and a
  step is \<open>None\<close> when that activity cannot move in that state. A schedule is a list of
  events; what holds for every schedule holds for every interleaving.
\<close>

text \<open>The child: not started, running, exited but not yet waited for, or waited for.\<close>

datatype proc = NotStarted | Running | Zombie proc_status | Reaped proc_status

text \<open>The goroutine \<^verbatim>\<open>done <- cmd.Wait()\<close>.\<close>

datatype waiter = WNotSpawned | WWaiting | WGot "error option" | WSent

text \<open>A timer's callback: not started, started (it has logged), finished.\<close>

datatype callback = CbPending | CbStarted | CbDone

text \<open>
  A \<^verbatim>\<open>*time.Timer\<close> made by \<^verbatim>\<open>time.AfterFunc(d, f)\<close>: when it was armed (\<open>None\<close> before
  the call), the delay \<open>d\<close>, the callback, and whether \<^verbatim>\<open>Stop\<close> has been called.
\<close>

record timer =
  armed_at :: "nat option"
  delay :: nat
  cb :: callback
  stopped :: bool

datatype timer_id = TermT | KillT

text \<open>Where the body of \<^verbatim>\<open>oidcLogin\<close> stands; the control points follow the source.\<close>

datatype pc =
    PStart
  | PSpawn
  | PArmTerm
  | PArmKill
  | PRecv
  | PStopTerm "error option"
  | PStopKill "error option"
  | PCheck "error option"
  | PReturned "error option"

record sup =
  cmd :: "string list"
  pc :: pc
  proc :: proc
  started_at :: "nat option"
  waiter :: waiter
  wait_answer :: "error option option"
  chan :: "error option list"
  termTimer :: timer
  killTimer :: timer
  now :: nat
  signals :: "signal list"
  log :: "log_msg list"

datatype event =
    Main
  | ProcExit proc_status
  | WaiterWait "error option"
  | WaiterSend
  | Fire timer_id
  | Deliver timer_id "error option"
  | Tick nat

text \<open>Durations in nanoseconds: \<^verbatim>\<open>1*time.Minute\<close> and \<^verbatim>\<open>90*time.Second\<close>.\<close>

definition Second :: nat where
  "Second = 1000000000"

definition Minute :: nat where
  "Minute = 60 * Second"

definition unarmed :: timer where
  "unarmed = \<lparr>armed_at = None, delay = 0, cb = CbPending, stopped = False\<rparr>"

definition AfterFunc :: "nat \<Rightarrow> nat \<Rightarrow> timer" where
  "AfterFunc t d = \<lparr>armed_at = Some t, delay = d, cb = CbPending, stopped = False\<rparr>"

text \<open>
  \<^verbatim>\<open>Timer.Stop\<close> keeps a timer that has not fired from firing; on a timer whose callback
  has started it changes nothing else.
\<close>

definition Stop :: "timer \<Rightarrow> timer" where
  "Stop t = t\<lparr>stopped := True\<rparr>"

text \<open>A timer may fire once its delay has passed, if it has not fired and was not stopped.\<close>

definition may_fire :: "nat \<Rightarrow> timer \<Rightarrow> bool" where
  "may_fire t tm =
     (case armed_at tm of
        None \<Rightarrow> False
      | Some a \<Rightarrow> a + delay tm \<le> t \<and> cb tm = CbPending \<and> \<not> stopped tm)"


definition login_cmd :: "client \<Rightarrow> string list" where
  "login_cmd c = [''vault'', ''login'', ''-method=oidc'', ''-address'', address c]"

definition sig_of :: "timer_id \<Rightarrow> signal" where
  "sig_of i = (case i of TermT \<Rightarrow> SIGTERM | KillT \<Rightarrow> SIGKILL)"

definition get_timer :: "timer_id \<Rightarrow> sup \<Rightarrow> timer" where
  "get_timer i s = (case i of TermT \<Rightarrow> termTimer s | KillT \<Rightarrow> killTimer s)"

definition set_timer :: "timer_id \<Rightarrow> timer \<Rightarrow> sup \<Rightarrow> sup" where
  "set_timer i tm s = (case i of TermT \<Rightarrow> s\<lparr>termTimer := tm\<rparr> | KillT \<Rightarrow> s\<lparr>killTimer := tm\<rparr>)"

text \<open>The state on entry to \<^verbatim>\<open>oidcLogin\<close>, at clock reading \<open>t\<close>.\<close>

definition init :: "client \<Rightarrow> nat \<Rightarrow> sup" where
  "init c t =
     \<lparr>cmd = login_cmd c, pc = PStart, proc = NotStarted, started_at = None,
      waiter = WNotSpawned, wait_answer = None, chan = [], termTimer = unarmed,
      killTimer = unarmed, now = t, signals = [], log = []\<rparr>"

text \<open>
  One statement of the body. \<open>start\<close> is what \<^verbatim>\<open>cmd.Start()\<close> answers for a command. The
  channel has capacity 1; receiving from it blocks while it is empty.
\<close>

definition main_step :: "(string list \<Rightarrow> error option) \<Rightarrow> sup \<Rightarrow> sup option" where
  "main_step start s =
     (case pc s of
        PStart \<Rightarrow>
          (case start (cmd s) of
             Some e \<Rightarrow> Some (s\<lparr>pc := PReturned (Some (Errorf ''error starting vault login: '' e))\<rparr>)
           | None \<Rightarrow> Some (s\<lparr>proc := Running, started_at := Some (now s), pc := PSpawn\<rparr>))
      | PSpawn \<Rightarrow> Some (s\<lparr>waiter := WWaiting, pc := PArmTerm\<rparr>)
      | PArmTerm \<Rightarrow> Some (s\<lparr>termTimer := AfterFunc (now s) (1 * Minute), pc := PArmKill\<rparr>)
      | PArmKill \<Rightarrow> Some (s\<lparr>killTimer := AfterFunc (now s) (90 * Second), pc := PRecv\<rparr>)
      | PRecv \<Rightarrow>
          (case chan s of
             [] \<Rightarrow> None
           | e # es \<Rightarrow> Some (s\<lparr>chan := es, pc := PStopTerm e\<rparr>))
      | PStopTerm e \<Rightarrow> Some (s\<lparr>termTimer := Stop (termTimer s), pc := PStopKill e\<rparr>)
      | PStopKill e \<Rightarrow> Some (s\<lparr>killTimer := Stop (killTimer s), pc := PCheck e\<rparr>)
      | PCheck e \<Rightarrow>
          (case e of
             Some err \<Rightarrow> Some (s\<lparr>pc := PReturned (Some (Errorf ''error during OIDC login: '' err))\<rparr>)
           | None \<Rightarrow> Some (s\<lparr>log := log s @ [LogLoggedIn], pc := PReturned None\<rparr>))
      | PReturned r \<Rightarrow> None)"

text \<open>
  The other activities. The child may exit at any moment with any status. In the waiting
  goroutine \<^verbatim>\<open>cmd.Wait()\<close> returns once the child has exited, and the event carries what
  it answered; the goroutine then sends that answer. A timer's callback first logs, then
  signals the child; the event carries what the signal call answered, and an error is
  logged.
\<close>

definition step :: "(string list \<Rightarrow> error option) \<Rightarrow> event \<Rightarrow> sup \<Rightarrow> sup option" where
  "step start ev s =
     (case ev of
        Main \<Rightarrow> main_step start s
      | ProcExit st \<Rightarrow>
          (case proc s of Running \<Rightarrow> Some (s\<lparr>proc := Zombie st\<rparr>) | _ \<Rightarrow> None)
      | WaiterWait w \<Rightarrow>
          (case (waiter s, proc s) of
             (WWaiting, Zombie st) \<Rightarrow>
               Some (s\<lparr>proc := Reaped st, wait_answer := Some w, waiter := WGot w\<rparr>)
           | _ \<Rightarrow> None)
      | WaiterSend \<Rightarrow>
          (case waiter s of
             WGot e \<Rightarrow>
               (if length (chan s) < 1 then Some (s\<lparr>chan := chan s @ [e], waiter := WSent\<rparr>)
                else None)
           | _ \<Rightarrow> None)
      | Fire i \<Rightarrow>
          (if may_fire (now s) (get_timer i s)
           then Some ((set_timer i ((get_timer i s)\<lparr>cb := CbStarted\<rparr>) s)
                        \<lparr>log := log s @ [LogSending (sig_of i)]\<rparr>)
           else None)
      | Deliver i r \<Rightarrow>
          (if cb (get_timer i s) = CbStarted
           then (case r of
                   None \<Rightarrow>
                     Some ((set_timer i ((get_timer i s)\<lparr>cb := CbDone\<rparr>) s)
                             \<lparr>signals := signals s @ [sig_of i]\<rparr>)
                 | Some e \<Rightarrow>
                     Some ((set_timer i ((get_timer i s)\<lparr>cb := CbDone\<rparr>) s)
                             \<lparr>log := log s @ [LogErrorSending (sig_of i) e]\<rparr>))
           else None)
      | Tick n \<Rightarrow> Some (s\<lparr>now := now s + n\<rparr>))"

fun run :: "(string list \<Rightarrow> error option) \<Rightarrow> event list \<Rightarrow> sup \<Rightarrow> sup option" where
  "run start [] s = Some s"
| "run start (ev # evs) s =
     (case step start ev s of None \<Rightarrow> None | Some s' \<Rightarrow> run start evs s')"

text \<open>
  \<^verbatim>\<open>oidcLogin(client)\<close> under a schedule: the returned error and the state at the return,
  or \<open>None\<close> when the schedule does not bring the body to its return.
\<close>

definition oidcLogin ::
  "(string list \<Rightarrow> error option) \<Rightarrow> client \<Rightarrow> nat \<Rightarrow> event list \<Rightarrow> (error option \<times> sup) option" where
  "oidcLogin start c t sched =
     (case run start sched (init c t) of
        None \<Rightarrow> None
      | Some s \<Rightarrow> (case pc s of PReturned r \<Rightarrow> Some (r, s) | _ \<Rightarrow> None))"

section \<open>The program: \<^verbatim>\<open>main\<close>\<close>

text \<open>The three flags after \<^verbatim>\<open>flag.Parse()\<close>, and their defaults.\<close>

record flags =
  vaultAddr :: string
  unexpandedTokenPath :: string
  minTTLStr :: string

definition default_flags :: flags where
  "default_flags =
     \<lparr>vaultAddr = [], unexpandedTokenPath = ''$HOME/.vault-token'', minTTLStr = ''72h''\<rparr>"

text \<open>The library calls of \<^verbatim>\<open>main\<close> and \<^verbatim>\<open>oidcLogin\<close> whose answers come from outside.\<close>

record env =
  time_ParseDuration :: "string \<Rightarrow> error + duration"
  api_NewClient :: "string \<Rightarrow> error + client"
  os_ExpandEnv :: "string \<Rightarrow> string"
  cmd_Start :: "string list \<Rightarrow> error option"
  clock :: nat

text \<open>
  How the process ends: its exit status, what it logged and did, and the supervised login,
  \<open>None\<close> when \<^verbatim>\<open>oidcLogin\<close> was never called.
\<close>

record result =
  exit_code :: nat
  trace :: "effect list"
  login :: "(error option \<times> sup) option"

text \<open>
  \<^verbatim>\<open>main\<close>. \<open>w1\<close> is the world at the first freshness evaluation and \<open>w2\<close> the world at
  the second, after the login has run. \<^verbatim>\<open>log.Fatalf\<close> exits with status 1, a panic with
  status 2. The result is \<open>None\<close> when the schedule given for the login does not bring it
  to its return.
\<close>

definition main :: "env \<Rightarrow> world \<Rightarrow> world \<Rightarrow> flags \<Rightarrow> event list \<Rightarrow> result option" where
  "main en w1 w2 fl sched =
     (case time_ParseDuration en (minTTLStr fl) of
        Inl e \<Rightarrow> Some \<lparr>exit_code = 1, trace = [ELog (LogParsingDuration e)], login = None\<rparr>
      | Inr minTTL \<Rightarrow>
         (case api_NewClient en (vaultAddr fl) of
            Inl e \<Rightarrow> Some \<lparr>exit_code = 1, trace = [ELog (LogCreatingClient e)], login = None\<rparr>
          | Inr client \<Rightarrow>
             (let tokenPath = os_ExpandEnv en (unexpandedTokenPath fl) in
              case ttl w1 client tokenPath of
                (Panic m, c1, tr1) \<Rightarrow> Some \<lparr>exit_code = 2, trace = tr1, login = None\<rparr>
              | (Return currTTL, c1, tr1) \<Rightarrow>
                 (if sint minTTL < sint currTTL
                  then Some \<lparr>exit_code = 0,
                             trace = tr1 @ [ELog (LogNotExpiringSoon currTTL)],
                             login = None\<rparr>
                  else
                    (case oidcLogin (cmd_Start en) c1 (clock en) sched of
                       None \<Rightarrow> None
                     | Some (Some e, s) \<Rightarrow>
                         Some \<lparr>exit_code = 1,
                               trace = tr1 @ [ELog (LogDoingLogin e)],
                               login = Some (Some e, s)\<rparr>
                     | Some (None, s) \<Rightarrow>
                        (case ttl w2 c1 tokenPath of
                           (Panic m, c2, tr2) \<Rightarrow>
                             Some \<lparr>exit_code = 2, trace = tr1 @ tr2, login = Some (None, s)\<rparr>
                         | (Return d, c2, tr2) \<Rightarrow>
                             Some \<lparr>exit_code = 0,
                                   trace = tr1 @ tr2 @ [ELog (LogTTLNow d)],
                                   login = Some (None, s)\<rparr>))))))"

section \<open>Concrete inputs\<close>

text \<open>Inputs on which the definitions are evaluated below.\<close>

definition path0 :: string where
  "path0 = ''/home/op/.vault-token''"

definition client0 :: client where
  "client0 = \<lparr>address = ''https://vault.acme.com'', token = [], headers = []\<rparr>"

text \<open>The token file's bytes end in a newline.\<close>

definition token0 :: string where
  "token0 = ''hvs.CAESIJ'' @ [CHR 0x0A]"

text \<open>
  The timestamp parser on three inputs: the first instants of 2030 and of 2020 and the last
  second of 9999, in nanoseconds since 1970.
\<close>

definition parse0 :: "string \<Rightarrow> error + instant" where
  "parse0 s =
     (if s = ''2030-01-01T00:00:00Z'' then Inr 1893456000000000000
      else if s = ''2020-01-01T00:00:00Z'' then Inr 1577836800000000000
      else if s = ''9999-12-31T23:59:59Z'' then Inr 253402300799000000000
      else Inl (Other ''cannot parse''))"

text \<open>2026-10-31T00:00:00Z, and the instant 72 hours before 2030-01-01T00:00:00Z.\<close>

definition now0 :: instant where
  "now0 = 1793404800000000000"

definition now72 :: instant where
  "now72 = 1893456000000000000 - 259200000000000"

text \<open>
  A world where only \<open>path0\<close> exists, the clock reads \<open>n\<close>, and the lookup answers
  \<open>ans\<close> for the file's token.
\<close>

definition world_with :: "instant \<Rightarrow> (secret option \<times> error option) \<Rightarrow> world" where
  "world_with n ans =
     \<lparr>os_Stat = (\<lambda>p. if p = path0 then None else Some (NotExist ''no such file or directory'')),
      os_ReadFile = (\<lambda>p. if p = path0 then Inr token0 else Inl (NotExist ''no such file or directory'')),
      LookupSelf = (\<lambda>c. if token c = token0 then ans else (None, Some (Other ''permission denied''))),
      time_Parse = parse0,
      time_Now = n\<rparr>"

definition expiring :: "iface \<Rightarrow> secret option \<times> error option" where
  "expiring v = (Some \<lparr>Data = [''expire_time'' \<mapsto> v]\<rparr>, None)"

text \<open>A world with no file at all.\<close>

definition world_empty :: world where
  "world_empty =
     \<lparr>os_Stat = (\<lambda>p. Some (NotExist ''no such file or directory'')),
      os_ReadFile = (\<lambda>p. Inl (NotExist ''no such file or directory'')),
      LookupSelf = (\<lambda>c. (None, Some (Other ''connection refused''))),
      time_Parse = parse0,
      time_Now = now0\<rparr>"

text \<open>The duration parser on \<^verbatim>\<open>72h\<close>, and an environment where \<^verbatim>\<open>cmd.Start()\<close> answers \<open>st\<close>.\<close>

definition parse_duration0 :: "string \<Rightarrow> error + duration" where
  "parse_duration0 s =
     (if s = ''72h'' then Inr 259200000000000 else Inl (Other ''invalid duration''))"

definition env_with :: "error option \<Rightarrow> env" where
  "env_with st =
     \<lparr>time_ParseDuration = parse_duration0,
      api_NewClient = (\<lambda>a. Inr (client0\<lparr>address := a\<rparr>)),
      os_ExpandEnv = (\<lambda>p. if p = ''$HOME/.vault-token'' then path0 else p),
      cmd_Start = (\<lambda>c. st),
      clock = 0\<rparr>"

text \<open>Whether a finished run called \<^verbatim>\<open>oidcLogin\<close>.\<close>

definition invoked :: "result \<Rightarrow> bool" where
  "invoked r = (login r \<noteq> None)"

text \<open>A login that exits with status 0 before either timer fires.\<close>

definition sched_quick :: "event list" where
  "sched_quick =
     [Main, Main, Main, Main, Tick (5 * Second), ProcExit (Exited 0),
      WaiterWait None, WaiterSend, Main, Main, Main, Main]"

text \<open>A login that ignores SIGTERM at 60 seconds and is killed at 90 seconds.\<close>

definition sched_killed :: "event list" where
  "sched_killed =
     [Main, Main, Main, Main, Tick (60 * Second), Fire TermT, Deliver TermT None,
      Tick (30 * Second), Fire KillT, Deliver KillT None, ProcExit (Signaled SIGKILL),
      WaiterWait (Some (ExitError (Signaled SIGKILL))), WaiterSend, Main, Main, Main, Main]"




section \<open>Invariant of the supervised login\<close>

text \<open>
  The facts that hold at each control point of \<^verbatim>\<open>oidcLogin\<close>, whatever the other
  activities have done in between.
\<close>

fun alive :: "proc \<Rightarrow> bool" where
  "alive Running = True"
| "alive (Zombie st) = True"
| "alive _ = False"

fun reaped_with :: "proc \<Rightarrow> error option option \<Rightarrow> error option \<Rightarrow> bool" where
  "reaped_with (Reaped st) a e = (a = Some e)"
| "reaped_with _ a e = False"

fun wait_result :: "error option option \<Rightarrow> error option" where
  "wait_result (Some w) = w"
| "wait_result None = None"

text \<open>The result of the wait is still on its way to the body.\<close>

fun pending :: "waiter \<Rightarrow> proc \<Rightarrow> error option option \<Rightarrow> error option list \<Rightarrow> bool" where
  "pending WNotSpawned p a ch = False"
| "pending WWaiting p a ch = (ch = [] \<and> alive p)"
| "pending (WGot e) p a ch = (ch = [] \<and> reaped_with p a e)"
| "pending WSent p a ch = (ch = [wait_result a] \<and> reaped_with p a (wait_result a))"

definition wait_pending :: "sup \<Rightarrow> bool" where
  "wait_pending s = pending (waiter s) (proc s) (wait_answer s) (chan s)"

text \<open>The body has received \<open>e\<close>, the result of the wait.\<close>

definition wait_received :: "error option \<Rightarrow> sup \<Rightarrow> bool" where
  "wait_received e s =
     (waiter s = WSent \<and> chan s = [] \<and> reaped_with (proc s) (wait_answer s) e)"

fun ole :: "nat option \<Rightarrow> nat option \<Rightarrow> bool" where
  "ole (Some a) (Some b) = (a \<le> b)"
| "ole _ _ = False"

text \<open>
  An armed timer: its delay is \<open>d\<close>, it was armed after the start and not in the future,
  and if its callback has started the delay has passed.
\<close>

definition timer_ok :: "sup \<Rightarrow> nat \<Rightarrow> timer \<Rightarrow> bool" where
  "timer_ok s d tm =
     (delay tm = d \<and> ole (started_at s) (armed_at tm) \<and> ole (armed_at tm) (Some (now s)) \<and>
      (cb tm \<noteq> CbPending \<longrightarrow> ole (map_option (\<lambda>a. a + d) (armed_at tm)) (Some (now s))))"

definition both_armed :: "sup \<Rightarrow> bool" where
  "both_armed s =
     (timer_ok s (1 * Minute) (termTimer s) \<and> timer_ok s (90 * Second) (killTimer s) \<and>
      ole (armed_at (termTimer s)) (armed_at (killTimer s)))"

definition login_error :: "error option \<Rightarrow> error option" where
  "login_error e =
     (case e of None \<Rightarrow> None | Some err \<Rightarrow> Some (Errorf ''error during OIDC login: '' err))"

fun start_error :: "error option \<Rightarrow> bool" where
  "start_error (Some (Errorf p e)) = (p = ''error starting vault login: '')"
| "start_error _ = False"

definition inv :: "sup \<Rightarrow> bool" where
  "inv s =
     (case pc s of
        PStart \<Rightarrow>
          proc s = NotStarted \<and> waiter s = WNotSpawned \<and> chan s = [] \<and> started_at s = None \<and>
          termTimer s = unarmed \<and> killTimer s = unarmed
      | PSpawn \<Rightarrow>
          alive (proc s) \<and> waiter s = WNotSpawned \<and> chan s = [] \<and>
          ole (started_at s) (Some (now s)) \<and> termTimer s = unarmed \<and> killTimer s = unarmed
      | PArmTerm \<Rightarrow>
          wait_pending s \<and> ole (started_at s) (Some (now s)) \<and>
          termTimer s = unarmed \<and> killTimer s = unarmed
      | PArmKill \<Rightarrow>
          wait_pending s \<and> timer_ok s (1 * Minute) (termTimer s) \<and> \<not> stopped (termTimer s) \<and>
          killTimer s = unarmed
      | PRecv \<Rightarrow>
          wait_pending s \<and> both_armed s \<and> \<not> stopped (termTimer s) \<and> \<not> stopped (killTimer s)
      | PStopTerm e \<Rightarrow>
          wait_received e s \<and> both_armed s \<and> \<not> stopped (termTimer s) \<and> \<not> stopped (killTimer s)
      | PStopKill e \<Rightarrow>
          wait_received e s \<and> both_armed s \<and> stopped (termTimer s) \<and> \<not> stopped (killTimer s)
      | PCheck e \<Rightarrow>
          wait_received e s \<and> both_armed s \<and> stopped (termTimer s) \<and> stopped (killTimer s)
      | PReturned r \<Rightarrow>
          (if proc s = NotStarted
           then waiter s = WNotSpawned \<and> chan s = [] \<and> started_at s = None \<and>
                termTimer s = unarmed \<and> killTimer s = unarmed \<and> start_error r
           else wait_received (wait_result (wait_answer s)) s \<and>
                r = login_error (wait_result (wait_answer s)) \<and>
                both_armed s \<and> stopped (termTimer s) \<and> stopped (killTimer s)))"

text \<open>When the command starts, only the entry point has no child.\<close>

definition started_inv :: "(string list \<Rightarrow> error option) \<Rightarrow> sup \<Rightarrow> bool" where
  "started_inv start s = (start (cmd s) = None \<and> (pc s = PStart \<or> proc s \<noteq> NotStarted))"

text \<open>When the command does not start, the body is at its entry or has returned the error.\<close>

definition failed_inv :: "(string list \<Rightarrow> error option) \<Rightarrow> error \<Rightarrow> sup \<Rightarrow> bool" where
  "failed_inv start e s =
     (start (cmd s) = Some e \<and> proc s = NotStarted \<and> waiter s = WNotSpawned \<and> chan s = [] \<and>
      termTimer s = unarmed \<and> killTimer s = unarmed \<and> signals s = [] \<and> log s = [] \<and>
      (pc s = PStart \<or> pc s = PReturned (Some (Errorf ''error starting vault login: '' e))))"




section \<open>The invariant is kept by every step\<close>

lemmas inv_defs = inv_def wait_pending_def wait_received_def timer_ok_def both_armed_def

lemma inv_init: "inv (init c t)"
  by (simp add: inv_def init_def)

lemma inv_main: "inv s \<Longrightarrow> main_step start s = Some s' \<Longrightarrow> inv s'"
proof (cases "pc s")
  case PStart
  then show "inv s \<Longrightarrow> main_step start s = Some s' \<Longrightarrow> inv s'"
    by (auto simp: inv_def main_step_def split: option.splits)
next
  case PSpawn
  then show "inv s \<Longrightarrow> main_step start s = Some s' \<Longrightarrow> inv s'"
    by (auto simp: inv_def main_step_def wait_pending_def)
next
  case PArmTerm
  then show "inv s \<Longrightarrow> main_step start s = Some s' \<Longrightarrow> inv s'"
    by (cases "started_at s") (auto simp: inv_def main_step_def wait_pending_def timer_ok_def AfterFunc_def)
next
  case PArmKill
  then show "inv s \<Longrightarrow> main_step start s = Some s' \<Longrightarrow> inv s'"
    by (cases "started_at s"; cases "armed_at (termTimer s)")
       (auto simp: inv_def main_step_def wait_pending_def timer_ok_def both_armed_def AfterFunc_def)
next
  case PRecv
  then show "inv s \<Longrightarrow> main_step start s = Some s' \<Longrightarrow> inv s'"
    by (cases "waiter s")
       (auto simp: inv_def main_step_def wait_pending_def wait_received_def timer_ok_def both_armed_def
             split: list.splits)
next
  case (PStopTerm e)
  then show "inv s \<Longrightarrow> main_step start s = Some s' \<Longrightarrow> inv s'"
    by (auto simp: inv_def main_step_def wait_received_def timer_ok_def both_armed_def Stop_def)
next
  case (PStopKill e)
  then show "inv s \<Longrightarrow> main_step start s = Some s' \<Longrightarrow> inv s'"
    by (auto simp: inv_def main_step_def wait_received_def timer_ok_def both_armed_def Stop_def)
next
  case (PCheck e)
  then show "inv s \<Longrightarrow> main_step start s = Some s' \<Longrightarrow> inv s'"
    by (cases e; cases "proc s")
       (auto simp: inv_def main_step_def wait_received_def timer_ok_def both_armed_def login_error_def)
next
  case (PReturned r)
  then show "inv s \<Longrightarrow> main_step start s = Some s' \<Longrightarrow> inv s'"
    by (simp add: main_step_def)
qed

lemma inv_ProcExit: "inv s \<Longrightarrow> step start (ProcExit st) s = Some s' \<Longrightarrow> inv s'"
  by (cases "pc s"; cases "proc s"; cases "waiter s")
     (auto simp: inv_defs step_def)

lemma inv_WaiterWait: "inv s \<Longrightarrow> step start (WaiterWait w) s = Some s' \<Longrightarrow> inv s'"
  by (cases "pc s"; cases "proc s"; cases "waiter s")
     (auto simp: inv_defs step_def)

lemma inv_WaiterSend: "inv s \<Longrightarrow> step start WaiterSend s = Some s' \<Longrightarrow> inv s'"
  by (cases "pc s"; cases "proc s"; cases "waiter s")
     (auto simp: inv_defs step_def split: if_splits)

lemma inv_Tick: "inv s \<Longrightarrow> step start (Tick n) s = Some s' \<Longrightarrow> inv s'"
  by (cases "pc s"; cases "started_at s"; cases "armed_at (termTimer s)"; cases "armed_at (killTimer s)")
     (auto simp: inv_defs step_def split: if_splits)

lemma inv_Fire: "inv s \<Longrightarrow> step start (Fire i) s = Some s' \<Longrightarrow> inv s'"
  by (cases "pc s"; cases i; cases "started_at s"; cases "armed_at (termTimer s)"; cases "armed_at (killTimer s)")
     (auto simp: inv_defs step_def may_fire_def get_timer_def set_timer_def unarmed_def split: if_splits)

lemma inv_Deliver: "inv s \<Longrightarrow> step start (Deliver i r) s = Some s' \<Longrightarrow> inv s'"
  by (cases "pc s"; cases i; cases r; cases "started_at s"; cases "armed_at (termTimer s)"; cases "armed_at (killTimer s)")
     (auto simp: inv_defs step_def get_timer_def set_timer_def unarmed_def split: if_splits)

lemma inv_step: "inv s \<Longrightarrow> step start ev s = Some s' \<Longrightarrow> inv s'"
proof (cases ev)
  case Main
  then show "inv s \<Longrightarrow> step start ev s = Some s' \<Longrightarrow> inv s'"
    using inv_main [of s start s'] by (simp add: step_def)
qed (auto intro: inv_ProcExit inv_WaiterWait inv_WaiterSend inv_Tick inv_Fire inv_Deliver)

lemma inv_run: "inv s \<Longrightarrow> run start evs s = Some s' \<Longrightarrow> inv s'"
  by (induction evs arbitrary: s) (auto split: option.splits dest: inv_step)

lemma started_step: "started_inv start s \<Longrightarrow> step start ev s = Some s' \<Longrightarrow> started_inv start s'"
  by (cases ev; cases "pc s")
     (auto simp: started_inv_def step_def main_step_def get_timer_def set_timer_def
           split: option.splits list.splits proc.splits waiter.splits if_splits timer_id.splits prod.splits)

lemma started_run: "started_inv start s \<Longrightarrow> run start evs s = Some s' \<Longrightarrow> started_inv start s'"
  by (induction evs arbitrary: s) (auto split: option.splits dest: started_step)

lemma failed_step: "failed_inv start e s \<Longrightarrow> step start ev s = Some s' \<Longrightarrow> failed_inv start e s'"
  by (cases ev; cases "pc s")
     (auto simp: failed_inv_def step_def main_step_def get_timer_def set_timer_def unarmed_def may_fire_def
           split: option.splits list.splits proc.splits waiter.splits if_splits timer_id.splits prod.splits)

lemma failed_run: "failed_inv start e s \<Longrightarrow> run start evs s = Some s' \<Longrightarrow> failed_inv start e s'"
  by (induction evs arbitrary: s) (auto split: option.splits dest: failed_step)






lemma returned_state:
  assumes "start (login_cmd c) = None" and "oidcLogin start c t sched = Some (r, s)"
  shows "inv s \<and> pc s = PReturned r \<and> proc s \<noteq> NotStarted \<and> run start sched (init c t) = Some s"
proof -
  from assms(2) have run: "run start sched (init c t) = Some s" and pc: "pc s = PReturned r"
    by (auto simp: oidcLogin_def split: option.splits pc.splits)
  have "started_inv start (init c t)"
    using assms(1) by (simp add: started_inv_def init_def)
  from started_run [OF this run] pc have "proc s \<noteq> NotStarted"
    by (simp add: started_inv_def)
  with inv_run [OF inv_init run] pc run show ?thesis by simp
qed













lemma sint_word64_of_int:
  "- (2 ^ 63) \<le> k \<Longrightarrow> k < 2 ^ 63 \<Longrightarrow> sint (word_of_int k :: 64 word) = k"
  by (simp add: signed_of_int signed_take_bit_int_eq_self)

lemma sint_time_Sub:
  "sint (time_Sub t u) =
     (if maxDuration < t - u then maxDuration
      else if t - u < minDuration then minDuration else t - u)"
  unfolding time_Sub_def Let_def maxDuration_def minDuration_def
  by (auto simp del: of_int_diff simp add: sint_word64_of_int)

lemmas sup_defs = oidcLogin_def init_def step_def main_step_def may_fire_def get_timer_def set_timer_def
  AfterFunc_def Stop_def unarmed_def sig_of_def login_cmd_def Second_def Minute_def

section \<open>The orchestrator\<close>

text \<open>
  Claim C1, as the code has it: in every run where the flags parse, the client is made and
  the first freshness evaluation returns a duration strictly greater than the configured
  minimum, the program ends with exit status 0 and never calls \<^verbatim>\<open>oidcLogin\<close>, whatever
  the schedule. The source compares with \<^verbatim>\<open>currTTL > minTTL\<close>.
\<close>

theorem main_fresh_skips_login:
  assumes "time_ParseDuration en (minTTLStr fl) = Inr minTTL"
    and "api_NewClient en (vaultAddr fl) = Inr c0"
    and "ttl w1 c0 (os_ExpandEnv en (unexpandedTokenPath fl)) = (Return d, c1, tr)"
    and "sint minTTL < sint d"
  shows "main en w1 w2 fl sched =
           Some \<lparr>exit_code = 0, trace = tr @ [ELog (LogNotExpiringSoon d)], login = None\<rparr>"
  using assms by (simp add: main_def)

text \<open>A token that expires in 2030, read in 2026 against the default 72 hours.\<close>

theorem main_fresh_skips_login_witness:
  "time_ParseDuration (env_with None) (minTTLStr default_flags) = Inr 259200000000000 \<and>
   api_NewClient (env_with None) (vaultAddr default_flags) = Inr (client0\<lparr>address := []\<rparr>) \<and>
   fst (ttl (world_with now0 (expiring (VString ''2030-01-01T00:00:00Z''))) (client0\<lparr>address := []\<rparr>)
          (os_ExpandEnv (env_with None) (unexpandedTokenPath default_flags))) = Return 100051200000000000 \<and>
   sint (259200000000000 :: duration) < sint (100051200000000000 :: duration) \<and>
   map_option exit_code
     (main (env_with None) (world_with now0 (expiring (VString ''2030-01-01T00:00:00Z''))) world_empty
        default_flags []) = Some 0 \<and>
   map_option invoked
     (main (env_with None) (world_with now0 (expiring (VString ''2030-01-01T00:00:00Z''))) world_empty
        default_flags []) = Some False"
  using main_fresh_skips_login [of "env_with None" default_flags 259200000000000 "client0\<lparr>address := []\<rparr>"
          "world_with now0 (expiring (VString ''2030-01-01T00:00:00Z''))"
          100051200000000000 "client0\<lparr>address := [], token := token0\<rparr>"
          "[EStat path0, EReadFile path0, ESetToken token0, ELookupSelf]" world_empty "[]"]
  by (simp add: env_with_def parse_duration0_def default_flags_def world_with_def expiring_def parse0_def
        ttl_def SetToken_def time_Until_def time_Sub_def maxDuration_def minDuration_def now0_def
        invoked_def client0_def)

text \<open>
  With a freshness duration equal to the minimum the login is called: the token expires
  exactly 72 hours from now, \<^verbatim>\<open>-min-ttl\<close> is 72h, the \<^verbatim>\<open>vault\<close> executable is missing,
  and the program ends with exit status 1.
\<close>

theorem main_equal_ttl_counterexample:
  "time_ParseDuration (env_with (Some (Other ''executable file not found''))) (minTTLStr default_flags) =
     Inr 259200000000000 \<and>
   fst (ttl (world_with now72 (expiring (VString ''2030-01-01T00:00:00Z''))) (client0\<lparr>address := []\<rparr>)
          (os_ExpandEnv (env_with (Some (Other ''executable file not found'')))
             (unexpandedTokenPath default_flags))) = Return 259200000000000 \<and>
   sint (259200000000000 :: duration) \<le> sint (259200000000000 :: duration) \<and>
   map_option exit_code
     (main (env_with (Some (Other ''executable file not found'')))
        (world_with now72 (expiring (VString ''2030-01-01T00:00:00Z''))) world_empty
        default_flags [Main]) = Some 1 \<and>
   map_option invoked
     (main (env_with (Some (Other ''executable file not found'')))
        (world_with now72 (expiring (VString ''2030-01-01T00:00:00Z''))) world_empty
        default_flags [Main]) = Some True"
  by (simp add: main_def env_with_def parse_duration0_def default_flags_def world_with_def expiring_def
        parse0_def ttl_def SetToken_def time_Until_def time_Sub_def maxDuration_def minDuration_def
        now72_def invoked_def client0_def sup_defs)

text \<open>
  After a successful login, a second evaluation that returns any duration at all leads to
  exit status 0; the duration is only logged.
\<close>

lemma main_after_login_exit_zero:
  assumes "time_ParseDuration en (minTTLStr fl) = Inr minTTL"
    and "api_NewClient en (vaultAddr fl) = Inr c0"
    and "ttl w1 c0 (os_ExpandEnv en (unexpandedTokenPath fl)) = (Return d, c1, tr1)"
    and "\<not> sint minTTL < sint d"
    and "oidcLogin (cmd_Start en) c1 (clock en) sched = Some (None, s)"
    and "ttl w2 c1 (os_ExpandEnv en (unexpandedTokenPath fl)) = (Return d2, c2, tr2)"
  shows "main en w1 w2 fl sched =
           Some \<lparr>exit_code = 0, trace = tr1 @ tr2 @ [ELog (LogTTLNow d2)], login = Some (None, s)\<rparr>"
  using assms by (simp add: main_def)

text \<open>
  Claim C9 says that after a successful login the program re-evaluates freshness for
  reporting and ends with exit status 0 unconditionally. Here the login succeeds and the
  lookup of the second evaluation answers a nil secret with a nil error: \<^verbatim>\<open>ttl\<close> panics
  and the process ends with exit status 2.
\<close>

theorem main_second_ttl_panics:
  "map_option fst (oidcLogin (cmd_Start (env_with None)) (client0\<lparr>address := []\<rparr>) 0 sched_quick) =
     Some None \<and>
   fst (ttl (world_with now0 (None, None)) (client0\<lparr>address := []\<rparr>) path0) =
     Panic ''nil pointer dereference'' \<and>
   map_option exit_code
     (main (env_with None) world_empty (world_with now0 (None, None)) default_flags sched_quick) = Some 2"
  by (simp add: main_def env_with_def parse_duration0_def default_flags_def world_with_def world_empty_def
        ttl_def SetToken_def invoked_def client0_def sup_defs sched_quick_def)

section \<open>The freshness evaluation\<close>

text \<open>
  Every failure the source tests for gives the duration zero: a missing path, a path that
  cannot be accessed, a file that cannot be read, a failed lookup, a missing
  \<^verbatim>\<open>expire_time\<close>, one that is not a string, and one that does not parse.
\<close>

lemma ttl_failure_modes_zero:
  "os_IsNotExist (os_Stat w p) \<Longrightarrow> fst (ttl w c p) = Return 0"
  "os_Stat w p = Some e \<Longrightarrow> fst (ttl w c p) = Return 0"
  "os_Stat w p = None \<Longrightarrow> os_ReadFile w p = Inl e \<Longrightarrow> fst (ttl w c p) = Return 0"
  "os_Stat w p = None \<Longrightarrow> os_ReadFile w p = Inr b \<Longrightarrow> LookupSelf w (SetToken c b) = (x, Some e) \<Longrightarrow>
     fst (ttl w c p) = Return 0"
  "os_Stat w p = None \<Longrightarrow> os_ReadFile w p = Inr b \<Longrightarrow> LookupSelf w (SetToken c b) = (Some sec, None) \<Longrightarrow>
     Data sec ''expire_time'' = None \<Longrightarrow> fst (ttl w c p) = Return 0"
  "os_Stat w p = None \<Longrightarrow> os_ReadFile w p = Inr b \<Longrightarrow> LookupSelf w (SetToken c b) = (Some sec, None) \<Longrightarrow>
     Data sec ''expire_time'' = Some v \<Longrightarrow> (\<forall>s. v \<noteq> VString s) \<Longrightarrow> fst (ttl w c p) = Return 0"
  "os_Stat w p = None \<Longrightarrow> os_ReadFile w p = Inr b \<Longrightarrow> LookupSelf w (SetToken c b) = (Some sec, None) \<Longrightarrow>
     Data sec ''expire_time'' = Some (VString s) \<Longrightarrow> time_Parse w s = Inl e \<Longrightarrow> fst (ttl w c p) = Return 0"
  by (auto simp: ttl_def Let_def split: option.splits iface.splits)

text \<open>
  Claim C2 says that the freshness evaluation never raises a hard error and that every
  failure gives the duration zero. Here the token file is readable and the lookup answers
  a nil secret with a nil error: the evaluation panics at \<^verbatim>\<open>secret.Data\<close>, after it has
  set the client's token.
\<close>

theorem ttl_nil_secret_panics:
  "ttl (world_with now0 (None, None)) client0 path0 =
     (Panic ''nil pointer dereference'', client0\<lparr>token := token0\<rparr>,
      [EStat path0, EReadFile path0, ESetToken token0, ELookupSelf])"
  by (simp add: world_with_def ttl_def SetToken_def)

text \<open>
  Claim C7, as the code has it: when the token file is readable, the lookup succeeds and
  its \<^verbatim>\<open>expire_time\<close> is a string that parses to the instant \<open>expiry\<close>, the evaluation
  returns \<open>expiry - now\<close> brought into the range of a Duration: the difference itself when
  it fits in 64 bits, the largest Duration when it is greater, the smallest when it is
  less. The result is strictly positive for an expiry in the future and strictly negative
  for one in the past.
\<close>

theorem ttl_valid_expiry:
  assumes "os_Stat w p = None" and "os_ReadFile w p = Inr bytes"
    and "LookupSelf w (SetToken c bytes) = (Some sec, None)"
    and "Data sec ''expire_time'' = Some (VString str)"
    and "time_Parse w str = Inr expiry"
  shows "\<exists>d. fst (ttl w c p) = Return d \<and>
           sint d = (if maxDuration < expiry - time_Now w then maxDuration
                     else if expiry - time_Now w < minDuration then minDuration
                     else expiry - time_Now w) \<and>
           (time_Now w < expiry \<longrightarrow> 0 < sint d) \<and>
           (expiry < time_Now w \<longrightarrow> sint d < 0)"
proof -
  have "fst (ttl w c p) = Return (time_Until w expiry)"
    using assms by (simp add: ttl_def Let_def)
  moreover have "sint (time_Until w expiry) =
      (if maxDuration < expiry - time_Now w then maxDuration
       else if expiry - time_Now w < minDuration then minDuration
       else expiry - time_Now w)"
    by (simp add: time_Until_def sint_time_Sub)
  moreover have "time_Now w < expiry \<longrightarrow> 0 < sint (time_Until w expiry)"
    by (simp add: time_Until_def sint_time_Sub maxDuration_def minDuration_def)
  moreover have "expiry < time_Now w \<longrightarrow> sint (time_Until w expiry) < 0"
    by (simp add: time_Until_def sint_time_Sub maxDuration_def minDuration_def)
  ultimately show ?thesis by blast
qed

text \<open>
  Evaluated on 2026-10-31: an expiry at the start of 2030 gives 1158 days, one at the
  start of 2020 gives minus 2495 days.
\<close>

theorem ttl_valid_expiry_witness:
  "os_Stat (world_with now0 (expiring (VString ''2030-01-01T00:00:00Z''))) path0 = None \<and>
   os_ReadFile (world_with now0 (expiring (VString ''2030-01-01T00:00:00Z''))) path0 = Inr token0 \<and>
   LookupSelf (world_with now0 (expiring (VString ''2030-01-01T00:00:00Z''))) (SetToken client0 token0) =
     expiring (VString ''2030-01-01T00:00:00Z'') \<and>
   time_Parse (world_with now0 (expiring (VString ''2030-01-01T00:00:00Z''))) ''2030-01-01T00:00:00Z'' =
     Inr 1893456000000000000 \<and>
   time_Now (world_with now0 (expiring (VString ''2030-01-01T00:00:00Z''))) < 1893456000000000000 \<and>
   fst (ttl (world_with now0 (expiring (VString ''2030-01-01T00:00:00Z''))) client0 path0) =
     Return 100051200000000000 \<and>
   sint (100051200000000000 :: duration) = 1893456000000000000 - now0 \<and>
   time_Parse (world_with now0 (expiring (VString ''2020-01-01T00:00:00Z''))) ''2020-01-01T00:00:00Z'' =
     Inr 1577836800000000000 \<and>
   1577836800000000000 < time_Now (world_with now0 (expiring (VString ''2020-01-01T00:00:00Z''))) \<and>
   fst (ttl (world_with now0 (expiring (VString ''2020-01-01T00:00:00Z''))) client0 path0) =
     Return (- 215568000000000000) \<and>
   sint (- 215568000000000000 :: duration) = 1577836800000000000 - now0"
  using ttl_valid_expiry [of "world_with now0 (expiring (VString ''2030-01-01T00:00:00Z''))" path0 token0 client0
          "\<lparr>Data = [''expire_time'' \<mapsto> VString ''2030-01-01T00:00:00Z'']\<rparr>"
          "''2030-01-01T00:00:00Z''" 1893456000000000000]
        ttl_valid_expiry [of "world_with now0 (expiring (VString ''2020-01-01T00:00:00Z''))" path0 token0 client0
          "\<lparr>Data = [''expire_time'' \<mapsto> VString ''2020-01-01T00:00:00Z'']\<rparr>"
          "''2020-01-01T00:00:00Z''" 1577836800000000000]
  by (simp add: world_with_def expiring_def parse0_def ttl_def SetToken_def time_Until_def time_Sub_def
        maxDuration_def minDuration_def now0_def)

text \<open>
  An expiry at the end of the year 9999 is a well-formed timestamp in the future, and
  the returned duration is the largest Duration, about 292 years, not \<open>expiry - now\<close>.
\<close>

theorem ttl_far_future_counterexample:
  "os_Stat (world_with now0 (expiring (VString ''9999-12-31T23:59:59Z''))) path0 = None \<and>
   os_ReadFile (world_with now0 (expiring (VString ''9999-12-31T23:59:59Z''))) path0 = Inr token0 \<and>
   LookupSelf (world_with now0 (expiring (VString ''9999-12-31T23:59:59Z''))) (SetToken client0 token0) =
     expiring (VString ''9999-12-31T23:59:59Z'') \<and>
   time_Parse (world_with now0 (expiring (VString ''9999-12-31T23:59:59Z''))) ''9999-12-31T23:59:59Z'' =
     Inr 253402300799000000000 \<and>
   time_Now (world_with now0 (expiring (VString ''9999-12-31T23:59:59Z''))) < 253402300799000000000 \<and>
   fst (ttl (world_with now0 (expiring (VString ''9999-12-31T23:59:59Z''))) client0 path0) =
     Return 9223372036854775807 \<and>
   sint (9223372036854775807 :: duration) \<noteq>
     253402300799000000000 - time_Now (world_with now0 (expiring (VString ''9999-12-31T23:59:59Z'')))"
  by (simp add: world_with_def expiring_def parse0_def ttl_def SetToken_def time_Until_def time_Sub_def
        maxDuration_def minDuration_def now0_def)

text \<open>
  Claim C8: for a path that does not exist the evaluation returns the duration zero, and
  its only action is the \<^verbatim>\<open>os.Stat\<close> call: the file is not read, the client is left as
  it was, and no lookup is made.
\<close>

theorem ttl_missing_path:
  "os_IsNotExist (os_Stat w p) \<Longrightarrow> ttl w c p = (Return 0, c, [EStat p])"
  by (simp add: ttl_def)

theorem ttl_missing_path_witness:
  "os_IsNotExist (os_Stat world_empty path0) \<and>
   ttl world_empty client0 path0 = (Return 0, client0, [EStat path0])"
  using ttl_missing_path [of world_empty path0 client0]
  by (simp add: world_empty_def)

text \<open>
  Claim C10: whenever the token file exists and is readable, the evaluation leaves the
  client with its token set to the bytes of the file, unchanged, and every other field
  as it was; this holds on every path through the rest of the function, also those that
  end with the duration zero.
\<close>

theorem ttl_sets_token:
  "os_Stat w p = None \<Longrightarrow> os_ReadFile w p = Inr bytes \<Longrightarrow>
   fst (snd (ttl w c p)) = c\<lparr>token := bytes\<rparr> \<and>
   address (fst (snd (ttl w c p))) = address c \<and>
   headers (fst (snd (ttl w c p))) = headers c \<and>
   ESetToken bytes \<in> set (snd (snd (ttl w c p)))"
  by (simp add: ttl_def SetToken_def Let_def split: prod.splits option.splits iface.splits sum.splits)

text \<open>The lookup fails, the duration is zero, and the token keeps its trailing newline.\<close>

theorem ttl_sets_token_witness:
  "os_Stat (world_with now0 (None, Some (Other ''connection refused''))) path0 = None \<and>
   os_ReadFile (world_with now0 (None, Some (Other ''connection refused''))) path0 = Inr token0 \<and>
   ttl (world_with now0 (None, Some (Other ''connection refused''))) client0 path0 =
     (Return 0, client0\<lparr>token := ''hvs.CAESIJ'' @ [CHR 0x0A]\<rparr>,
      [EStat path0, EReadFile path0, ESetToken token0, ELookupSelf,
       ELog (LogLookingUp (Other ''connection refused''))])"
  using ttl_sets_token [of "world_with now0 (None, Some (Other ''connection refused''))" path0 token0 client0]
  by (simp add: world_with_def ttl_def SetToken_def token0_def)

section \<open>The supervised login\<close>







text \<open>
  Claim C5: when the command has started and \<^verbatim>\<open>oidcLogin\<close> returns, under any schedule,
  the child has exited and has been waited for, the result of the wait has been sent, and
  \<^verbatim>\<open>Stop\<close> has been called on both timers, so that neither can fire from then on.
  \<^verbatim>\<open>Stop\<close> changes nothing else in a timer, whether its callback has started or not.
\<close>

theorem oidcLogin_returns_after_exit_timers_stopped:
  assumes "start (login_cmd c) = None" and "oidcLogin start c t sched = Some (r, s)"
  shows "(\<exists>st. proc s = Reaped st) \<and> waiter s = WSent \<and>
         stopped (termTimer s) \<and> stopped (killTimer s) \<and>
         step start (Fire TermT) s = None \<and> step start (Fire KillT) s = None \<and>
         (\<forall>tm. cb (Stop tm) = cb tm \<and> armed_at (Stop tm) = armed_at tm \<and> delay (Stop tm) = delay tm)"
proof -
  from returned_state [OF assms] have i: "inv s" and pc: "pc s = PReturned r"
    and ns: "proc s \<noteq> NotStarted"
    by simp_all
  from i pc ns have w: "wait_received (wait_result (wait_answer s)) s"
    and st: "stopped (termTimer s)" "stopped (killTimer s)"
    by (simp_all add: inv_def)
  from w have "\<exists>st. proc s = Reaped st" and "waiter s = WSent"
    by (cases "proc s"; simp add: wait_received_def)+
  moreover from st have "step start (Fire TermT) s = None" "step start (Fire KillT) s = None"
    by (simp_all add: step_def may_fire_def get_timer_def split: option.splits)
  ultimately show ?thesis using st by (simp add: Stop_def)
qed

text \<open>
  The child ignores SIGTERM and is killed at 90 seconds: both callbacks have finished
  when the body calls \<^verbatim>\<open>Stop\<close>, and the login returns the wait error.
\<close>

theorem oidcLogin_returns_after_exit_timers_stopped_witness:
  "cmd_Start (env_with None) (login_cmd client0) = None \<and>
   map_option fst (oidcLogin (cmd_Start (env_with None)) client0 0 sched_killed) =
     Some (Some (Errorf ''error during OIDC login: '' (ExitError (Signaled SIGKILL)))) \<and>
   map_option (proc \<circ> snd) (oidcLogin (cmd_Start (env_with None)) client0 0 sched_killed) =
     Some (Reaped (Signaled SIGKILL)) \<and>
   map_option (cb \<circ> termTimer \<circ> snd) (oidcLogin (cmd_Start (env_with None)) client0 0 sched_killed) =
     Some CbDone \<and>
   map_option (stopped \<circ> termTimer \<circ> snd) (oidcLogin (cmd_Start (env_with None)) client0 0 sched_killed) =
     Some True \<and>
   map_option (stopped \<circ> killTimer \<circ> snd) (oidcLogin (cmd_Start (env_with None)) client0 0 sched_killed) =
     Some True"
  using oidcLogin_returns_after_exit_timers_stopped [of "cmd_Start (env_with None)" client0 0 sched_killed
          "Some (Errorf ''error during OIDC login: '' (ExitError (Signaled SIGKILL)))"
          "snd (the (oidcLogin (cmd_Start (env_with None)) client0 0 sched_killed))"]
  by (simp add: env_with_def sup_defs client0_def sched_killed_def)

text \<open>
  Claim C6: when the command cannot be started, the first statement of the body returns
  the start error, wrapped in ``error starting vault login''; under every schedule
  neither timer is ever armed, there is no child and no signal is sent; and whenever
  \<^verbatim>\<open>oidcLogin\<close> returns, it returns that error.
\<close>

theorem oidcLogin_start_failure:
  assumes "start (login_cmd c) = Some e"
  shows "oidcLogin start c t [Main] =
           Some (Some (Errorf ''error starting vault login: '' e),
                 (init c t)\<lparr>pc := PReturned (Some (Errorf ''error starting vault login: '' e))\<rparr>) \<and>
         (\<forall>sched s. run start sched (init c t) = Some s \<longrightarrow>
            armed_at (termTimer s) = None \<and> armed_at (killTimer s) = None \<and> proc s = NotStarted \<and>
            signals s = []) \<and>
         (\<forall>sched r s. oidcLogin start c t sched = Some (r, s) \<longrightarrow>
            r = Some (Errorf ''error starting vault login: '' e))"
proof -
  have f0: "failed_inv start e (init c t)"
    using assms by (simp add: failed_inv_def init_def)
  have a: "oidcLogin start c t [Main] =
           Some (Some (Errorf ''error starting vault login: '' e),
                 (init c t)\<lparr>pc := PReturned (Some (Errorf ''error starting vault login: '' e))\<rparr>)"
    using assms by (simp add: oidcLogin_def step_def main_step_def init_def)
  have b: "armed_at (termTimer s) = None \<and> armed_at (killTimer s) = None \<and> proc s = NotStarted \<and> signals s = []"
    if "run start sched (init c t) = Some s" for sched s
    using failed_run [OF f0 that] by (simp add: failed_inv_def unarmed_def)
  have c: "r = Some (Errorf ''error starting vault login: '' e)"
    if "oidcLogin start c t sched = Some (r, s)" for sched r s
  proof -
    from that have run: "run start sched (init c t) = Some s" and pc: "pc s = PReturned r"
      by (auto simp: oidcLogin_def split: option.splits pc.splits)
    from failed_run [OF f0 run] pc show ?thesis by (simp add: failed_inv_def)
  qed
  from a b c show ?thesis by blast
qed

text \<open>The executable is missing; the clock then runs past both delays and nothing is armed.\<close>

theorem oidcLogin_start_failure_witness:
  "cmd_Start (env_with (Some (Other ''executable file not found''))) (login_cmd client0) =
     Some (Other ''executable file not found'') \<and>
   map_option fst (oidcLogin (cmd_Start (env_with (Some (Other ''executable file not found'')))) client0 0 [Main]) =
     Some (Some (Errorf ''error starting vault login: '' (Other ''executable file not found''))) \<and>
   map_option (armed_at \<circ> termTimer)
     (run (cmd_Start (env_with (Some (Other ''executable file not found'')))) [Main, Tick (90 * Second), Tick 1] (init client0 0)) =
     Some None \<and>
   map_option (armed_at \<circ> killTimer)
     (run (cmd_Start (env_with (Some (Other ''executable file not found'')))) [Main, Tick (90 * Second), Tick 1] (init client0 0)) =
     Some None"
  using oidcLogin_start_failure [of "cmd_Start (env_with (Some (Other ''executable file not found'')))" client0
          "Other ''executable file not found''" 0]
  by (simp add: env_with_def sup_defs client0_def)

end
